theory Spec2Isabelle
  imports Main
begin

section \<open>The Mavis ID wallet provider (packages/mavis-id-sdk)\<close>

text \<open>
  A shallow embedding of the class \<open>MavisIdWallet\<close> (the EIP-1193 provider) and of the
  standalone functions of \<open>auth.ts\<close> (\<open>authorize\<close>, \<open>parseRedirectUrl\<close>).

  The provider is single-threaded JavaScript. An \<open>async\<close> function is modelled by the
  promise it returns together with the state it leaves behind; a promise is pending
  (it never settles), rejected with an error, or fulfilled with a value. Everything the
  code reaches outside the class is an explicit parameter:
  \<^item> the helpers and tables the class imports but the sources do not contain
    (\<open>validateIdAddress\<close>, \<open>getScopesParams\<close>, \<open>VIEM_CHAIN_MAPPING\<close>, \<open>ID_ORIGIN_PROD\<close>,
    \<open>STORAGE_ADDRESS_KEY\<close>, \<open>toHex\<close>, \<open>personalSign\<close>, \<open>signTypedDataV4\<close>,
    \<open>sendTransaction\<close>, the viem client's \<open>request\<close>) are the fields of the record
    \<open>env\<close>;
  \<^item> \<open>communicateHelper.sendRequest\<close>, the cross-window handshake, is represented by the
    promise it returns (the argument \<open>reply\<close> of \<open>connect\<close>), and each call of it is
    written to the trace;
  \<^item> the browser's \<open>localStorage\<close> is a map from keys to strings.
\<close>

subsection \<open>Data\<close>

text \<open>
  viem's \<open>Address\<close> is the template type \<open>`0x${string}`\<close>: a value of it is never the empty
  string, so the truthiness tests of the code on an \<open>Address | undefined\<close>
  (\<open>if (this.address)\<close>, \<open>!address\<close>, \<open>!!this.address\<close>, \<open>address ? .. : ..\<close>) are tests for
  \<open>undefined\<close>. Such a value is an \<open>Address option\<close>.
\<close>

type_synonym Address = string

text \<open>\<open>Scope\<close> is a union of string literals, among them "openid" and "wallet".\<close>

type_synonym Scope = string

text \<open>A viem chain description (its id and name) and the client built for it.\<close>

datatype Chain = Chain int string

datatype Client = Client Chain

text \<open>The payload of the authorization handshake (\<open>IdResponse\<close>): both fields may be missing.\<close>

record IdResponse =
  id_token :: "string option"
  resp_address :: "string option"

text \<open>
  The errors the code throws. The three viem provider errors wrap an \<open>Error\<close>, kept here
  by its message; \<open>ChainDisconnectedError\<close> keeps the chain id its message
  \<open>`Chain ${chainId} is not supported.`\<close> interpolates. \<open>TypeError\<close> and \<open>ReferenceError\<close> are
  the runtime's own (destructuring \<open>undefined\<close>, reading \<open>window\<close> where there is none).
  \<open>RemoteFailure\<close> and \<open>ExternalError\<close> are rejections that come from outside the class:
  a handshake answered with a failure payload, and any other reason.
\<close>

datatype error =
    ChainDisconnectedError int
  | UnauthorizedProviderError string
  | ProviderDisconnectedError string
  | TypeError string
  | ReferenceError string
  | RemoteFailure IdResponse
  | ExternalError string

datatype 'a promise = Pending | Rejected error | Fulfilled 'a

text \<open>The three events of \<open>Eip1193EventName\<close> the class emits, with their payloads.\<close>

datatype event =
    AccountsChanged "Address list"
  | Connect int
  | Disconnect error

text \<open>
  The query parameters \<open>openPopup\<close> receives from the launcher of \<open>connect\<close> and
  \<open>authorize\<close>. The \<open>state\<close> parameter is the token \<open>sendRequest\<close> generates and hands to
  the launcher, so it is not part of the request the class builds. \<open>origin\<close> is
  \<open>window.location.origin\<close>, absent where there is no window.
\<close>

record popup_params =
  p_redirect :: string
  p_origin :: "string option"
  p_scope :: string

text \<open>
  The argument object of \<open>personalSign\<close>, \<open>signTypedDataV4\<close> and \<open>sendTransaction\<close>
  (\<open>personalSign\<close> gets no \<open>chainId\<close>). The \<open>communicateHelper\<close> passed along is the
  instance's own, fixed by \<open>idOrigin\<close>.
\<close>

type_synonym rpc_params = "string list"

record action_args =
  act_params :: rpc_params
  act_chainId :: "int option"
  act_expectAddress :: Address
  act_clientId :: string
  act_idOrigin :: string

record rpc_args =
  rpc_method :: string
  rpc_params :: rpc_params

text \<open>What \<open>request\<close> resolves to.\<close>

datatype rpc_value =
    Hex string
  | Accounts "Address list"
  | Opaque string

text \<open>Everything the class does to the outside, in the order it happens.\<close>

datatype effect =
    SendRequest string popup_params
  | Emit event
  | PersonalSign action_args
  | SignTypedDataV4 action_args
  | SendTransaction action_args
  | ViemRequest rpc_args

text \<open>The imported helpers, tables and constants, and the browser's window.\<close>

record env =
  ID_ORIGIN_PROD :: string
  STORAGE_ADDRESS_KEY :: string
  VIEM_CHAIN_MAPPING :: "int \<Rightarrow> Chain option"
  validateIdAddress :: "string option \<Rightarrow> Address option"
  getScopesParams :: "Scope list option \<Rightarrow> string"
  toHex :: "int \<Rightarrow> error + string"
  personalSign :: "action_args \<Rightarrow> rpc_value promise"
  signTypedDataV4 :: "action_args \<Rightarrow> rpc_value promise"
  sendTransaction :: "action_args \<Rightarrow> rpc_value promise"
  viemRequest :: "rpc_args \<Rightarrow> rpc_value promise"
  window_origin :: "string option"

text \<open>\<open>MavisIdWalletOpts\<close>: \<open>AuthorizeOpts\<close> and the chain id.\<close>

record MavisIdWalletOpts =
  opt_clientId :: string
  opt_idOrigin :: "string option"
  opt_scopes :: "Scope list option"
  opt_redirectUrl :: "string option"
  opt_chainId :: int

text \<open>The fields of an instance; only \<open>address\<close> is not readonly.\<close>

record MavisIdWallet =
  clientId :: string
  idOrigin :: string
  redirectUrl :: string
  scopes :: "Scope list"
  chainId :: int
  address :: "Address option"
  viemClient :: Client

text \<open>What the instance shares with its surroundings: the storage and the trace of effects.\<close>

record world =
  storage :: "string \<Rightarrow> string option"
  trace :: "effect list"

subsection \<open>Construction\<close>

definition addDefaultScopes :: "Scope list \<Rightarrow> Scope list" where
  "addDefaultScopes scopes0 =
     (let newScopes = scopes0;
          newScopes = (if ''openid'' \<notin> set newScopes then newScopes @ [''openid''] else newScopes);
          newScopes = (if ''wallet'' \<notin> set newScopes then newScopes @ [''wallet''] else newScopes)
      in newScopes)"

definition createViemClient :: "env \<Rightarrow> int \<Rightarrow> error + Client" where
  "createViemClient e cid =
     (case VIEM_CHAIN_MAPPING e cid of
        None \<Rightarrow> Inl (ChainDisconnectedError cid)
      | Some chain \<Rightarrow> Inr (Client chain))"

text \<open>
  The constructor, reached through the static \<open>create\<close>. The defaults of the destructured
  options are \<open>[]\<close>, \<open>ID_ORIGIN_PROD\<close> and the window's origin (\<open>""\<close> without a window).
  \<open>createViemClient\<close> is the last statement and the only one that throws (the
  constructors of \<open>EventEmitter\<close> and \<open>CommunicateHelper\<close> and viem's \<open>createClient\<close> only
  build objects); a constructor that throws yields no instance.
\<close>

definition create :: "env \<Rightarrow> MavisIdWalletOpts \<Rightarrow> error + MavisIdWallet" where
  "create e options =
     (let scopes0 = (case opt_scopes options of None \<Rightarrow> [] | Some xs \<Rightarrow> xs);
          idOrigin0 = (case opt_idOrigin options of None \<Rightarrow> ID_ORIGIN_PROD e | Some x \<Rightarrow> x);
          redirectUrl0 = (case opt_redirectUrl options of
                            None \<Rightarrow> (case window_origin e of Some x \<Rightarrow> x | None \<Rightarrow> '''')
                          | Some x \<Rightarrow> x)
      in case createViemClient e (opt_chainId options) of
           Inl err \<Rightarrow> Inl err
         | Inr client \<Rightarrow>
             Inr \<lparr> clientId = opt_clientId options,
                   idOrigin = idOrigin0,
                   redirectUrl = redirectUrl0,
                   scopes = addDefaultScopes scopes0,
                   chainId = opt_chainId options,
                   address = None,
                   viemClient = client \<rparr>)"

subsection \<open>The session cache\<close>

text \<open>
  Modelled from the spec: the storage helpers (\<open>utils/storage\<close>) are not among the
  sources. The session cache is backed by persistent key-value storage scoped to the
  browser origin, under one fixed key: \<open>getStorage\<close> reads a key (\<open>null\<close> when absent),
  \<open>setStorage\<close> writes it, \<open>removeStorage\<close> deletes it.
\<close>

definition getStorage :: "world \<Rightarrow> string \<Rightarrow> string option" where
  "getStorage s k = storage s k"

definition setStorage :: "string \<Rightarrow> string \<Rightarrow> world \<Rightarrow> world" where
  "setStorage k v s = s\<lparr>storage := (storage s)(k \<mapsto> v)\<rparr>"

definition removeStorage :: "string \<Rightarrow> world \<Rightarrow> world" where
  "removeStorage k s = s\<lparr>storage := (storage s)(k := None)\<rparr>"

text \<open>\<open>this.emit\<close> of the EventEmitter base class: the event is written to the trace.\<close>

definition emit :: "event \<Rightarrow> world \<Rightarrow> world" where
  "emit ev s = s\<lparr>trace := trace s @ [Emit ev]\<rparr>"

text \<open>
  \<open>getIdAddress\<close>: the in-memory address if set, else the stored value (\<open>""\<close> for a missing
  or empty one, by \<open>|| ""\<close>) passed through \<open>validateIdAddress\<close>.
\<close>

definition getIdAddress :: "env \<Rightarrow> MavisIdWallet \<Rightarrow> world \<Rightarrow> Address option" where
  "getIdAddress e this s =
     (case address this of
        Some a \<Rightarrow> Some a
      | None \<Rightarrow>
          (let storedAddress = (case getStorage s (STORAGE_ADDRESS_KEY e) of
                                  None \<Rightarrow> [] | Some v \<Rightarrow> v)
           in validateIdAddress e (Some storedAddress)))"

subsection \<open>connect and disconnect\<close>

text \<open>
  \<open>await p\<close> followed by the rest of an \<open>async\<close> function: the rest runs on the value of a
  fulfilled promise; a rejection becomes the function's own, and on a promise that never
  settles the function never goes on.
\<close>

definition await ::
  "'a promise \<times> MavisIdWallet \<times> world \<Rightarrow>
   ('a \<Rightarrow> MavisIdWallet \<Rightarrow> world \<Rightarrow> 'b promise \<times> MavisIdWallet \<times> world) \<Rightarrow>
   'b promise \<times> MavisIdWallet \<times> world" where
  "await r k =
     (case r of
        (Pending, this, s) \<Rightarrow> (Pending, this, s)
      | (Rejected err, this, s) \<Rightarrow> (Rejected err, this, s)
      | (Fulfilled v, this, s) \<Rightarrow> k v this s)"

record connect_result =
  accessToken :: "string option"
  authorized :: Address

text \<open>The handshake request \<open>connect\<close> hands to \<open>sendRequest\<close>.\<close>

definition authorize_request :: "env \<Rightarrow> MavisIdWallet \<Rightarrow> effect" where
  "authorize_request e this =
     SendRequest (idOrigin this @ ''/client/'' @ clientId this @ ''/authorize'')
       \<lparr> p_redirect = redirectUrl this,
         p_origin = window_origin e,
         p_scope = getScopesParams e (Some (scopes this)) \<rparr>"

text \<open>
  \<open>connect\<close> after its \<open>await\<close>, on the payload \<open>authData\<close> the handshake was fulfilled with.
  Destructuring a payload that is \<open>undefined\<close> throws a TypeError.
\<close>

definition connect_settled ::
  "env \<Rightarrow> IdResponse option \<Rightarrow> MavisIdWallet \<Rightarrow> world \<Rightarrow>
   connect_result promise \<times> MavisIdWallet \<times> world" where
  "connect_settled e authData this s =
     (case authData of
        None \<Rightarrow> (Rejected (TypeError ''Cannot destructure authData''), this, s)
      | Some d \<Rightarrow>
          (case validateIdAddress e (resp_address d) of
             None \<Rightarrow>
               (Rejected (UnauthorizedProviderError ''ID do NOT return valid address''), this, s)
           | Some a \<Rightarrow>
               (let s1 = setStorage (STORAGE_ADDRESS_KEY e) a s;
                    this1 = this\<lparr>address := Some a\<rparr>;
                    addresses = [a];
                    s2 = emit (AccountsChanged addresses) s1;
                    s3 = emit (Connect (chainId this)) s2
                in (Fulfilled \<lparr> accessToken = id_token d, authorized = a \<rparr>, this1, s3))))"

text \<open>\<open>connect\<close>: \<open>reply\<close> is the promise \<open>sendRequest\<close> returns for the handshake.\<close>

definition connect ::
  "env \<Rightarrow> IdResponse option promise \<Rightarrow> MavisIdWallet \<Rightarrow> world \<Rightarrow>
   connect_result promise \<times> MavisIdWallet \<times> world" where
  "connect e reply this s =
     await (reply, this, s\<lparr>trace := trace s @ [authorize_request e this]\<rparr>)
       (connect_settled e)"

definition getIdAddressOrConnect ::
  "env \<Rightarrow> IdResponse option promise \<Rightarrow> MavisIdWallet \<Rightarrow> world \<Rightarrow>
   Address promise \<times> MavisIdWallet \<times> world" where
  "getIdAddressOrConnect e reply this s =
     (case getIdAddress e this s of
        Some a \<Rightarrow> (Fulfilled a, this, s)
      | None \<Rightarrow>
          await (connect e reply this s)
            (\<lambda>result this1 s1. (Fulfilled (authorized result), this1, s1)))"

definition disconnect :: "env \<Rightarrow> MavisIdWallet \<Rightarrow> world \<Rightarrow> MavisIdWallet \<times> world" where
  "disconnect e this s =
     (let shouldEmitDisconnectEvent = (address this \<noteq> None);
          s1 = removeStorage (STORAGE_ADDRESS_KEY e) s;
          this1 = this\<lparr>address := None\<rparr>
      in if shouldEmitDisconnectEvent
         then (let providerErr =
                     ProviderDisconnectedError ''The provider is disconnected from all chains.'';
                   s2 = emit (AccountsChanged []) s1;
                   s3 = emit (Disconnect providerErr) s2
               in (this1, s3))
         else (this1, s1))"

subsection \<open>request\<close>

text \<open>
  The object literal \<open>{ params, chainId, expectAddress, clientId, idOrigin, communicateHelper }\<close>
  the three actions are called with.
\<close>

definition action_object ::
  "rpc_params \<Rightarrow> int option \<Rightarrow> Address \<Rightarrow> MavisIdWallet \<Rightarrow> action_args" where
  "action_object params cid expectAddress this =
     \<lparr> act_params = params, act_chainId = cid, act_expectAddress = expectAddress,
       act_clientId = clientId this, act_idOrigin = idOrigin this \<rparr>"

text \<open>
  \<open>request\<close>, the \<open>switch\<close> on the method name. The three delegated actions and the viem
  client run outside the class: the call is written to the trace and its promise is the
  helper's.
\<close>

definition request ::
  "env \<Rightarrow> IdResponse option promise \<Rightarrow> rpc_args \<Rightarrow> MavisIdWallet \<Rightarrow> world \<Rightarrow>
   rpc_value promise \<times> MavisIdWallet \<times> world" where
  "request e reply args this s =
     (let method = rpc_method args; params = rpc_params args in
      if method = ''eth_chainId'' then
        (case toHex e (chainId this) of
           Inl err \<Rightarrow> (Rejected err, this, s)
         | Inr h \<Rightarrow> (Fulfilled (Hex h), this, s))
      else if method = ''eth_accounts'' then
        (let addr = getIdAddress e this s;
             result = (case addr of Some a \<Rightarrow> [a] | None \<Rightarrow> [])
         in (Fulfilled (Accounts result), this, s))
      else if method = ''eth_requestAccounts'' then
        await (connect e reply this s)
          (\<lambda>r this1 s1. (Fulfilled (Accounts [authorized r]), this1, s1))
      else if method = ''personal_sign'' then
        await (getIdAddressOrConnect e reply this s)
          (\<lambda>expectAddress this1 s1.
             (let a = action_object params None expectAddress this1
              in (personalSign e a, this1, s1\<lparr>trace := trace s1 @ [PersonalSign a]\<rparr>)))
      else if method = ''eth_signTypedData_v4'' then
        await (getIdAddressOrConnect e reply this s)
          (\<lambda>expectAddress this1 s1.
             (let a = action_object params (Some (chainId this1)) expectAddress this1
              in (signTypedDataV4 e a, this1, s1\<lparr>trace := trace s1 @ [SignTypedDataV4 a]\<rparr>)))
      else if method = ''eth_sendTransaction'' then
        await (getIdAddressOrConnect e reply this s)
          (\<lambda>expectAddress this1 s1.
             (let a = action_object params (Some (chainId this1)) expectAddress this1
              in (sendTransaction e a, this1, s1\<lparr>trace := trace s1 @ [SendTransaction a]\<rparr>)))
      else (viemRequest e args, this, s\<lparr>trace := trace s @ [ViemRequest args]\<rparr>))"

section \<open>The standalone functions of auth.ts\<close>

record AuthorizeOpts =
  ao_clientId :: string
  ao_idOrigin :: "string option"
  ao_scopes :: "Scope list option"
  ao_redirectUrl :: "string option"

record authorize_result =
  au_accessToken :: "string option"
  au_address :: "Address option"

text \<open>
  \<open>authorize\<close> touches neither an instance nor the storage: its state is the trace. The
  default of \<open>redirectUrl\<close> reads \<open>window.location.origin\<close> with no guard, a ReferenceError
  where there is no window. The payload is read through \<open>authData ?? {}\<close>, so a missing
  payload gives two missing fields.
\<close>

definition authorize ::
  "env \<Rightarrow> IdResponse option promise \<Rightarrow> AuthorizeOpts \<Rightarrow> effect list \<Rightarrow>
   authorize_result promise \<times> effect list" where
  "authorize e reply opts tr =
     (let idOrigin0 = (case ao_idOrigin opts of None \<Rightarrow> ID_ORIGIN_PROD e | Some x \<Rightarrow> x) in
      case (case ao_redirectUrl opts of
              None \<Rightarrow> (case window_origin e of
                         None \<Rightarrow> Inl (ReferenceError ''window is not defined'')
                       | Some x \<Rightarrow> Inr x)
            | Some x \<Rightarrow> Inr x) of
        Inl err \<Rightarrow> (Rejected err, tr)
      | Inr redirectUrl0 \<Rightarrow>
          (let tr1 = tr @ [SendRequest (idOrigin0 @ ''/client/'' @ ao_clientId opts @ ''/authorize'')
                             \<lparr> p_redirect = redirectUrl0,
                               p_origin = window_origin e,
                               p_scope = getScopesParams e (ao_scopes opts) \<rparr>]
           in case reply of
                Pending \<Rightarrow> (Pending, tr1)
              | Rejected err \<Rightarrow> (Rejected err, tr1)
              | Fulfilled authData \<Rightarrow>
                  (let d = (case authData of
                              None \<Rightarrow> \<lparr> id_token = None, resp_address = None \<rparr>
                            | Some x \<Rightarrow> x)
                   in (Fulfilled \<lparr> au_accessToken = id_token d,
                                    au_address = validateIdAddress e (resp_address d) \<rparr>,
                       tr1))))"

text \<open>
  \<open>parseRedirectUrl\<close> reads the query of \<open>window.location.href\<close>; \<open>query\<close> is the list of its
  decoded name/value pairs, and \<open>searchParams.get\<close> returns the first value of a name, or
  \<open>null\<close>. What it throws are string literals.
\<close>

definition searchParams_get :: "(string \<times> string) list \<Rightarrow> string \<Rightarrow> string option" where
  "searchParams_get query name = map_of query name"

record redirect_result =
  rr_state :: "string option"
  rr_accessToken :: "string option"
  rr_address :: "Address option"

definition parseRedirectUrl :: "env \<Rightarrow> (string \<times> string) list \<Rightarrow> string + redirect_result" where
  "parseRedirectUrl e query =
     (let method = searchParams_get query ''method'' in
      if method \<noteq> Some ''auth'' then Inl ''parseRedirectUrl: invalid method''
      else
        (let type = searchParams_get query ''type'' in
         if type \<noteq> Some ''success'' then Inl ''parseRedirectUrl: authorization failed''
         else
           (let state = searchParams_get query ''state'';
                rawToken = searchParams_get query ''data'';
                rawAddress = searchParams_get query ''address''
            in Inr \<lparr> rr_state = state,
                     rr_accessToken = rawToken,
                     rr_address = validateIdAddress e rawAddress \<rparr>)))"

section \<open>The cross-window messenger\<close>

text \<open>
  Modelled from the spec: the class \<open>CommunicateHelper\<close> (\<open>core/communicate\<close>), which owns the
  listener for the popup's messages, is not among the sources. The specification's rule
  for it: on every inbound message, discard it if its source origin is not the configured
  ID-provider origin; discard it if the token embedded in its payload is not the token of
  the currently pending request; otherwise unregister the listener and resolve the
  pending promise with the payload, or reject it if the status is failure.
\<close>

datatype status = Success | Failure

record message =
  msg_origin :: string
  msg_state :: string
  msg_status :: status
  msg_payload :: IdResponse

record messenger =
  cm_idOrigin :: string
  cm_token :: "string option"
  cm_listening :: bool
  cm_promise :: "IdResponse option promise"

definition onMessage :: "message \<Rightarrow> messenger \<Rightarrow> messenger" where
  "onMessage msg m =
     (if msg_origin msg \<noteq> cm_idOrigin m then m
      else if Some (msg_state msg) \<noteq> cm_token m then m
      else m\<lparr> cm_listening := False,
              cm_promise := (if msg_status msg = Failure
                             then Rejected (RemoteFailure (msg_payload msg))
                             else Fulfilled (Some (msg_payload msg))) \<rparr>)"

text \<open>
  Modelled from the spec: \<open>connect\<close> suspended at its \<open>await\<close> on the messenger's promise (the
  handshake request is already in the trace) when a message arrives. The listener runs
  first; the rest of \<open>connect\<close> runs only once the promise has settled.
\<close>

definition connect_on_message ::
  "env \<Rightarrow> message \<Rightarrow> messenger \<Rightarrow> MavisIdWallet \<Rightarrow> world \<Rightarrow>
   messenger \<times> connect_result promise \<times> MavisIdWallet \<times> world" where
  "connect_on_message e msg m this s =
     (let m1 = onMessage msg m
      in (m1, await (cm_promise m1, this, s) (connect_settled e)))"

section \<open>Observations on traces and states\<close>

text \<open>The events emitted in a trace, in order.\<close>

fun events_of :: "effect list \<Rightarrow> event list" where
  "events_of [] = []"
| "events_of (Emit ev # tr) = ev # events_of tr"
| "events_of (_ # tr) = events_of tr"

text \<open>
  The two states of a provider instance as the specification names them: \<open>Connected\<close> when
  a cached address is present, \<open>Disconnected\<close> when there is none. The cache is read by
  \<open>getIdAddress\<close>: the in-memory address, else a valid one in the storage.
\<close>

definition connected :: "env \<Rightarrow> MavisIdWallet \<Rightarrow> world \<Rightarrow> bool" where
  "connected e this s = (getIdAddress e this s \<noteq> None)"

section \<open>A sample environment\<close>

text \<open>Concrete values at which the theorems below are evaluated.\<close>

definition sample_address :: Address where
  "sample_address = ''0xAb5801a7D398351b8bE11C439e05C5B3259aeC9B''"

definition sample_env :: env where
  "sample_env =
     \<lparr> ID_ORIGIN_PROD = ''https://id.skymavis.com'',
       STORAGE_ADDRESS_KEY = ''MAVIS.ID:ADDRESS'',
       VIEM_CHAIN_MAPPING =
         (\<lambda>i. if i = 2020 then Some (Chain 2020 ''Ronin'')
              else if i = 2021 then Some (Chain 2021 ''Saigon Testnet'')
              else None),
       validateIdAddress = (\<lambda>raw. if raw = Some sample_address then raw else None),
       getScopesParams = (\<lambda>xs. case xs of None \<Rightarrow> [] | Some ys \<Rightarrow> concat (map (\<lambda>y. y @ '' '') ys)),
       toHex = (\<lambda>i. if i = 2020 then Inr ''0x7e4'' else Inl (ExternalError ''toHex'')),
       personalSign = (\<lambda>a. Fulfilled (Opaque (''signed by '' @ act_expectAddress a))),
       signTypedDataV4 = (\<lambda>a. Fulfilled (Opaque (''signed by '' @ act_expectAddress a))),
       sendTransaction = (\<lambda>a. Fulfilled (Opaque (''sent by '' @ act_expectAddress a))),
       viemRequest = (\<lambda>a. Fulfilled (Opaque (rpc_method a))),
       window_origin = Some ''https://app.example'' \<rparr>"

definition sample_wallet :: MavisIdWallet where
  "sample_wallet =
     \<lparr> clientId = ''client'',
       idOrigin = ''https://id.skymavis.com'',
       redirectUrl = ''https://app.example'',
       scopes = [''openid'', ''wallet''],
       chainId = 2020,
       address = None,
       viemClient = Client (Chain 2020 ''Ronin'') \<rparr>"

definition empty_world :: world where
  "empty_world = \<lparr> storage = (\<lambda>k. None), trace = [] \<rparr>"

definition old_address :: Address where
  "old_address = ''0x1111111111111111111111111111111111111111''"

section \<open>Properties\<close>

lemmas sample_defs = sample_env_def sample_address_def sample_wallet_def empty_world_def

subsection \<open>connect\<close>

lemma events_of_append: "events_of (xs @ ys) = events_of xs @ events_of ys"
  by (induction xs rule: events_of.induct) simp_all

lemma events_of_authorize_request: "events_of [authorize_request e this] = []"
  by (simp add: authorize_request_def)

lemma connect_fulfilled:
  "connect e (Fulfilled authData) this s =
     connect_settled e authData this (s\<lparr>trace := trace s @ [authorize_request e this]\<rparr>)"
  by (simp add: connect_def await_def)

lemma connect_rejected:
  "connect e (Rejected err) this s =
     (Rejected err, this, s\<lparr>trace := trace s @ [authorize_request e this]\<rparr>)"
  by (simp add: connect_def await_def)

lemma connect_pending:
  "connect e Pending this s = (Pending, this, s\<lparr>trace := trace s @ [authorize_request e this]\<rparr>)"
  by (simp add: connect_def await_def)

lemma connect_missing:
  "connect e (Fulfilled None) this s =
     (Rejected (TypeError ''Cannot destructure authData''), this,
      s\<lparr>trace := trace s @ [authorize_request e this]\<rparr>)"
  by (simp add: connect_fulfilled connect_settled_def)

lemma connect_invalid:
  "validateIdAddress e (resp_address d) = None \<Longrightarrow>
   connect e (Fulfilled (Some d)) this s =
     (Rejected (UnauthorizedProviderError ''ID do NOT return valid address''), this,
      s\<lparr>trace := trace s @ [authorize_request e this]\<rparr>)"
  by (simp add: connect_fulfilled connect_settled_def)

lemma connect_valid:
  "validateIdAddress e (resp_address d) = Some a \<Longrightarrow>
   connect e (Fulfilled (Some d)) this s =
     (Fulfilled \<lparr> accessToken = id_token d, authorized = a \<rparr>,
      this\<lparr>address := Some a\<rparr>,
      s\<lparr>storage := (storage s)(STORAGE_ADDRESS_KEY e \<mapsto> a),
        trace := trace s @ [authorize_request e this, Emit (AccountsChanged [a]),
                            Emit (Connect (chainId this))]\<rparr>)"
  by (simp add: connect_fulfilled connect_settled_def setStorage_def emit_def Let_def)

text \<open>
  Claim C1. When the handshake is fulfilled with a payload whose address
  \<open>validateIdAddress\<close> does not accept (a malformed or a missing one), \<open>connect\<close> rejects
  with the unauthorized-provider error that wraps "ID do NOT return valid address" (the
  specification's InvalidAddressError), and the session cache is as it was: the storage
  is not written, the instance (its in-memory address included) is unchanged, no event
  is emitted, and the cache reads as before, so an empty cache stays empty.
\<close>

theorem connect_rejects_invalid_address:
  "validateIdAddress e (resp_address d) = None \<Longrightarrow>
   (case connect e (Fulfilled (Some d)) this s of
      (r, this1, s1) \<Rightarrow>
        r = Rejected (UnauthorizedProviderError ''ID do NOT return valid address'') \<and>
        storage s1 = storage s \<and>
        this1 = this \<and>
        events_of (trace s1) = events_of (trace s) \<and>
        getIdAddress e this1 s1 = getIdAddress e this s)"
  by (simp add: connect_invalid events_of_append events_of_authorize_request
        getIdAddress_def getStorage_def split: option.splits)

theorem connect_rejects_invalid_address_witness:
  "validateIdAddress sample_env
       (resp_address \<lparr> id_token = Some ''token'', resp_address = Some ''0x123'' \<rparr>) = None \<and>
   connect sample_env
       (Fulfilled (Some \<lparr> id_token = Some ''token'', resp_address = Some ''0x123'' \<rparr>))
       sample_wallet empty_world =
     (Rejected (UnauthorizedProviderError ''ID do NOT return valid address''), sample_wallet,
      \<lparr> storage = (\<lambda>k. None),
        trace = [SendRequest ''https://id.skymavis.com/client/client/authorize''
                   \<lparr> p_redirect = ''https://app.example'',
                     p_origin = Some ''https://app.example'',
                     p_scope = ''openid wallet '' \<rparr>] \<rparr>) \<and>
   getIdAddress sample_env sample_wallet empty_world = None"
  using connect_rejects_invalid_address
          [where e = sample_env and this = sample_wallet and s = empty_world
             and d = "\<lparr> id_token = Some ''token'', resp_address = Some ''0x123'' \<rparr>"]
  by (simp add: sample_env_def sample_address_def sample_wallet_def empty_world_def
        connect_def await_def connect_settled_def authorize_request_def getIdAddress_def
        getStorage_def)

subsection \<open>eth_requestAccounts\<close>

lemma request_eth_requestAccounts:
  "rpc_method args = ''eth_requestAccounts'' \<Longrightarrow>
   request e reply args this s =
     await (connect e reply this s)
       (\<lambda>r this1 s1. (Fulfilled (Accounts [authorized r]), this1, s1))"
  by (simp add: request_def)

lemma getIdAddress_in_memory: "address this = Some a \<Longrightarrow> getIdAddress e this s = Some a"
  by (simp add: getIdAddress_def)

text \<open>
  Claim C2. Whatever the provider's state (an address cached or not), \<open>eth_requestAccounts\<close>
  sends the handshake request of \<open>connect\<close>; it is fulfilled only with the one-element list of
  the address the handshake returned, never with the cached one. When the handshake
  succeeds with a valid address, the request returns that list, the address is stored and
  kept in memory, \<open>accountsChanged\<close> with the address and then \<open>connect\<close> are emitted, and the
  provider is Connected.
\<close>

theorem eth_requestAccounts_runs_handshake:
  "rpc_method args = ''eth_requestAccounts'' \<Longrightarrow>
   (case request e reply args this s of
      (r, this1, s1) \<Rightarrow>
        (\<exists>rest. trace s1 = trace s @ authorize_request e this # rest) \<and>
        (\<forall>v. r = Fulfilled v \<longrightarrow>
           (\<exists>d a. reply = Fulfilled (Some d) \<and> validateIdAddress e (resp_address d) = Some a \<and>
                  v = Accounts [a])) \<and>
        (\<forall>d a. reply = Fulfilled (Some d) \<and> validateIdAddress e (resp_address d) = Some a \<longrightarrow>
           r = Fulfilled (Accounts [a]) \<and>
           this1 = this\<lparr>address := Some a\<rparr> \<and>
           storage s1 = (storage s)(STORAGE_ADDRESS_KEY e \<mapsto> a) \<and>
           trace s1 = trace s @ [authorize_request e this, Emit (AccountsChanged [a]),
                                 Emit (Connect (chainId this))] \<and>
           connected e this1 s1 \<and> getIdAddress e this1 s1 = Some a))"
proof -
  assume m: "rpc_method args = ''eth_requestAccounts''"
  show ?thesis
  proof (cases reply)
    case Pending
    then show ?thesis
      by (simp add: request_eth_requestAccounts [OF m] connect_pending await_def)
  next
    case (Rejected err)
    then show ?thesis
      by (simp add: request_eth_requestAccounts [OF m] connect_rejected await_def)
  next
    case (Fulfilled authData)
    show ?thesis
    proof (cases authData)
      case None
      with Fulfilled show ?thesis
        by (simp add: request_eth_requestAccounts [OF m] connect_missing await_def)
    next
      case (Some d)
      show ?thesis
      proof (cases "validateIdAddress e (resp_address d)")
        case None
        with Fulfilled Some show ?thesis
          by (simp add: request_eth_requestAccounts [OF m] connect_invalid await_def)
      next
        case (Some a)
        with Fulfilled \<open>authData = Some d\<close> show ?thesis
          by (simp add: request_eth_requestAccounts [OF m] connect_valid await_def
                connected_def getIdAddress_in_memory)
      qed
    qed
  qed
qed

theorem eth_requestAccounts_runs_handshake_witness:
  "getIdAddress sample_env (sample_wallet\<lparr>address := Some old_address\<rparr>) empty_world =
     Some old_address \<and>
   fst (request sample_env
          (Fulfilled (Some \<lparr> id_token = Some ''token'', resp_address = Some sample_address \<rparr>))
          \<lparr> rpc_method = ''eth_requestAccounts'', rpc_params = [] \<rparr>
          (sample_wallet\<lparr>address := Some old_address\<rparr>) empty_world) =
     Fulfilled (Accounts [sample_address]) \<and>
   fst (snd (request sample_env
          (Fulfilled (Some \<lparr> id_token = Some ''token'', resp_address = Some sample_address \<rparr>))
          \<lparr> rpc_method = ''eth_requestAccounts'', rpc_params = [] \<rparr>
          (sample_wallet\<lparr>address := Some old_address\<rparr>) empty_world)) =
     sample_wallet\<lparr>address := Some sample_address\<rparr> \<and>
   trace (snd (snd (request sample_env
          (Fulfilled (Some \<lparr> id_token = Some ''token'', resp_address = Some sample_address \<rparr>))
          \<lparr> rpc_method = ''eth_requestAccounts'', rpc_params = [] \<rparr>
          (sample_wallet\<lparr>address := Some old_address\<rparr>) empty_world))) =
     [authorize_request sample_env sample_wallet, Emit (AccountsChanged [sample_address]),
      Emit (Connect 2020)] \<and>
   storage (snd (snd (request sample_env
          (Fulfilled (Some \<lparr> id_token = Some ''token'', resp_address = Some sample_address \<rparr>))
          \<lparr> rpc_method = ''eth_requestAccounts'', rpc_params = [] \<rparr>
          (sample_wallet\<lparr>address := Some old_address\<rparr>) empty_world)))
       ''MAVIS.ID:ADDRESS'' = Some sample_address"
  using eth_requestAccounts_runs_handshake
          [where e = sample_env and s = empty_world
             and this = "sample_wallet\<lparr>address := Some old_address\<rparr>"
             and reply = "Fulfilled (Some \<lparr> id_token = Some ''token'',
                                              resp_address = Some sample_address \<rparr>)"
             and args = "\<lparr> rpc_method = ''eth_requestAccounts'', rpc_params = [] \<rparr>"]
  by (simp add: request_def getIdAddress_def connect_def await_def connect_settled_def
        setStorage_def emit_def authorize_request_def sample_defs old_address_def)

subsection \<open>Messages from a foreign origin\<close>

lemma onMessage_foreign: "msg_origin msg \<noteq> cm_idOrigin m \<Longrightarrow> onMessage msg m = m"
  by (simp add: onMessage_def)

lemma fold_onMessage_foreign:
  "\<forall>msg \<in> set msgs. msg_origin msg \<noteq> cm_idOrigin m \<Longrightarrow> fold onMessage msgs m = m"
  by (induction msgs) (simp_all add: onMessage_foreign)

text \<open>
  Claim C3. While a handshake is pending, messages whose origin is not the configured
  ID-provider origin change nothing, however many arrive: the messenger is as before and
  its promise is still pending, neither resolved nor rejected; and on each such message
  \<open>connect\<close>, waiting on that promise, neither returns nor touches the instance, the storage
  or the trace.
\<close>

theorem foreign_origin_message_ignored:
  "cm_promise m = Pending \<and> (\<forall>msg \<in> set msgs. msg_origin msg \<noteq> cm_idOrigin m) \<Longrightarrow>
   fold onMessage msgs m = m \<and>
   cm_promise (fold onMessage msgs m) = Pending \<and>
   (\<forall>msg \<in> set msgs.
      onMessage msg m = m \<and> connect_on_message e msg m this s = (m, Pending, this, s))"
  by (simp add: fold_onMessage_foreign onMessage_foreign connect_on_message_def await_def Let_def)

theorem foreign_origin_message_ignored_witness:
  "msg_origin \<lparr> msg_origin = ''https://evil.example'', msg_state = ''token-1'',
                msg_status = Success,
                msg_payload = \<lparr> id_token = Some ''forged'', resp_address = Some sample_address \<rparr> \<rparr>
     \<noteq> ''https://id.skymavis.com'' \<and>
   connect_on_message sample_env
       \<lparr> msg_origin = ''https://evil.example'', msg_state = ''token-1'', msg_status = Success,
         msg_payload = \<lparr> id_token = Some ''forged'', resp_address = Some sample_address \<rparr> \<rparr>
       \<lparr> cm_idOrigin = ''https://id.skymavis.com'', cm_token = Some ''token-1'',
         cm_listening = True, cm_promise = Pending \<rparr>
       sample_wallet empty_world =
     (\<lparr> cm_idOrigin = ''https://id.skymavis.com'', cm_token = Some ''token-1'',
        cm_listening = True, cm_promise = Pending \<rparr>,
      Pending, sample_wallet, empty_world) \<and>
   fold onMessage
       [\<lparr> msg_origin = ''https://evil.example'', msg_state = ''token-1'', msg_status = Success,
          msg_payload = \<lparr> id_token = Some ''forged'', resp_address = Some sample_address \<rparr> \<rparr>,
        \<lparr> msg_origin = ''https://evil.example'', msg_state = ''token-1'', msg_status = Failure,
          msg_payload = \<lparr> id_token = None, resp_address = None \<rparr> \<rparr>]
       \<lparr> cm_idOrigin = ''https://id.skymavis.com'', cm_token = Some ''token-1'',
         cm_listening = True, cm_promise = Pending \<rparr> =
     \<lparr> cm_idOrigin = ''https://id.skymavis.com'', cm_token = Some ''token-1'',
       cm_listening = True, cm_promise = Pending \<rparr> \<and>
   fst (snd (connect_on_message sample_env
       \<lparr> msg_origin = ''https://id.skymavis.com'', msg_state = ''token-1'', msg_status = Success,
         msg_payload = \<lparr> id_token = Some ''real'', resp_address = Some sample_address \<rparr> \<rparr>
       \<lparr> cm_idOrigin = ''https://id.skymavis.com'', cm_token = Some ''token-1'',
         cm_listening = True, cm_promise = Pending \<rparr>
       sample_wallet empty_world)) =
     Fulfilled \<lparr> accessToken = Some ''real'', authorized = sample_address \<rparr>"
  using foreign_origin_message_ignored
          [where e = sample_env and this = sample_wallet and s = empty_world
             and msgs = "[\<lparr> msg_origin = ''https://evil.example'', msg_state = ''token-1'',
                            msg_status = Success,
                            msg_payload = \<lparr> id_token = Some ''forged'',
                                            resp_address = Some sample_address \<rparr> \<rparr>,
                          \<lparr> msg_origin = ''https://evil.example'', msg_state = ''token-1'',
                            msg_status = Failure,
                            msg_payload = \<lparr> id_token = None, resp_address = None \<rparr> \<rparr>]"
             and m = "\<lparr> cm_idOrigin = ''https://id.skymavis.com'', cm_token = Some ''token-1'',
                        cm_listening = True, cm_promise = Pending \<rparr>"]
  by (simp add: onMessage_def connect_on_message_def await_def connect_settled_def
        setStorage_def emit_def sample_env_def sample_address_def)

subsection \<open>disconnect\<close>

text \<open>
  Claim C4 (as amended). \<open>disconnect\<close> always removes the stored address and clears the
  in-memory address. It emits \<open>accountsChanged\<close> with the empty list followed by \<open>disconnect\<close>
  with the provider-disconnected error exactly when the in-memory address was set, and
  nothing otherwise. When the in-memory address is unset and nothing is stored under the
  key, the instance and the world are left as they were.
\<close>

theorem disconnect_effects:
  "disconnect e this s =
     (this\<lparr>address := None\<rparr>,
      s\<lparr>storage := (storage s)(STORAGE_ADDRESS_KEY e := None),
        trace := trace s @
          (if address this = None then []
           else [Emit (AccountsChanged []),
                 Emit (Disconnect (ProviderDisconnectedError
                         ''The provider is disconnected from all chains.''))])\<rparr>) \<and>
   (address this = None \<and> storage s (STORAGE_ADDRESS_KEY e) = None \<longrightarrow>
      disconnect e this s = (this, s))"
  by (auto simp add: disconnect_def removeStorage_def emit_def Let_def fun_upd_idem)

theorem disconnect_effects_witness:
  "address sample_wallet = None \<and>
   storage empty_world (STORAGE_ADDRESS_KEY sample_env) = None \<and>
   disconnect sample_env sample_wallet empty_world = (sample_wallet, empty_world) \<and>
   fst (disconnect sample_env (sample_wallet\<lparr>address := Some sample_address\<rparr>)
          (empty_world\<lparr>storage := (\<lambda>k. if k = ''MAVIS.ID:ADDRESS'' then Some sample_address
                                         else None)\<rparr>)) = sample_wallet \<and>
   storage (snd (disconnect sample_env (sample_wallet\<lparr>address := Some sample_address\<rparr>)
          (empty_world\<lparr>storage := (\<lambda>k. if k = ''MAVIS.ID:ADDRESS'' then Some sample_address
                                         else None)\<rparr>))) ''MAVIS.ID:ADDRESS'' = None \<and>
   trace (snd (disconnect sample_env (sample_wallet\<lparr>address := Some sample_address\<rparr>)
          (empty_world\<lparr>storage := (\<lambda>k. if k = ''MAVIS.ID:ADDRESS'' then Some sample_address
                                         else None)\<rparr>))) =
     [Emit (AccountsChanged []),
      Emit (Disconnect (ProviderDisconnectedError
              ''The provider is disconnected from all chains.''))]"
  using disconnect_effects [where e = sample_env and this = sample_wallet and s = empty_world]
        disconnect_effects
          [where e = sample_env and this = "sample_wallet\<lparr>address := Some sample_address\<rparr>"
             and s = "empty_world\<lparr>storage := (\<lambda>k. if k = ''MAVIS.ID:ADDRESS''
                                                     then Some sample_address else None)\<rparr>"]
  by (simp add: sample_defs)

text \<open>
  Claim C4 as stated fails on an instance that is Connected through the storage alone (a
  fresh instance after a page reload): its cache holds an address, yet \<open>disconnect\<close> emits no
  event, and the stored address is removed.
\<close>

theorem disconnect_stored_only_counterexample:
  "address sample_wallet = None \<and>
   connected sample_env sample_wallet
       (empty_world\<lparr>storage := (\<lambda>k. if k = ''MAVIS.ID:ADDRESS'' then Some sample_address
                                      else None)\<rparr>) \<and>
   events_of (trace (snd (disconnect sample_env sample_wallet
       (empty_world\<lparr>storage := (\<lambda>k. if k = ''MAVIS.ID:ADDRESS'' then Some sample_address
                                      else None)\<rparr>)))) = [] \<and>
   storage (snd (disconnect sample_env sample_wallet
       (empty_world\<lparr>storage := (\<lambda>k. if k = ''MAVIS.ID:ADDRESS'' then Some sample_address
                                      else None)\<rparr>)))
     ''MAVIS.ID:ADDRESS'' = None"
  by (simp add: connected_def getIdAddress_def getStorage_def disconnect_def removeStorage_def
        sample_defs)

subsection \<open>eth_accounts\<close>

text \<open>
  Claim C5. \<open>eth_accounts\<close> resolves to the one-element list of the in-memory address if there
  is one, else of the stored value if \<open>validateIdAddress\<close> accepts it, else to the empty list.
  The instance and the world are unchanged, so no handshake request is sent, and the
  answer does not depend on what a handshake would return.
\<close>

theorem eth_accounts_reads_cache:
  "rpc_method args = ''eth_accounts'' \<Longrightarrow>
   request e reply args this s =
     (Fulfilled (Accounts
        (case address this of
           Some a \<Rightarrow> [a]
         | None \<Rightarrow>
             (case validateIdAddress e
                     (Some (case storage s (STORAGE_ADDRESS_KEY e) of
                              None \<Rightarrow> [] | Some v \<Rightarrow> v)) of
                Some a \<Rightarrow> [a]
              | None \<Rightarrow> []))),
      this, s)"
  by (simp add: request_def getIdAddress_def getStorage_def Let_def split: option.splits)

theorem eth_accounts_reads_cache_witness:
  "request sample_env Pending \<lparr> rpc_method = ''eth_accounts'', rpc_params = [] \<rparr>
       (sample_wallet\<lparr>address := Some sample_address\<rparr>) empty_world =
     (Fulfilled (Accounts [sample_address]), sample_wallet\<lparr>address := Some sample_address\<rparr>,
      empty_world) \<and>
   request sample_env Pending \<lparr> rpc_method = ''eth_accounts'', rpc_params = [] \<rparr>
       sample_wallet (empty_world\<lparr>storage := (\<lambda>k. Some sample_address)\<rparr>) =
     (Fulfilled (Accounts [sample_address]), sample_wallet,
      empty_world\<lparr>storage := (\<lambda>k. Some sample_address)\<rparr>) \<and>
   request sample_env Pending \<lparr> rpc_method = ''eth_accounts'', rpc_params = [] \<rparr>
       sample_wallet (empty_world\<lparr>storage := (\<lambda>k. Some ''not an address'')\<rparr>) =
     (Fulfilled (Accounts []), sample_wallet,
      empty_world\<lparr>storage := (\<lambda>k. Some ''not an address'')\<rparr>) \<and>
   request sample_env Pending \<lparr> rpc_method = ''eth_accounts'', rpc_params = [] \<rparr>
       sample_wallet empty_world =
     (Fulfilled (Accounts []), sample_wallet, empty_world)"
  using eth_accounts_reads_cache
          [where e = sample_env and reply = Pending and s = empty_world
             and args = "\<lparr> rpc_method = ''eth_accounts'', rpc_params = [] \<rparr>"
             and this = "sample_wallet\<lparr>address := Some sample_address\<rparr>"]
        eth_accounts_reads_cache
          [where e = sample_env and reply = Pending
             and s = "empty_world\<lparr>storage := (\<lambda>k. Some sample_address)\<rparr>"
             and args = "\<lparr> rpc_method = ''eth_accounts'', rpc_params = [] \<rparr>"
             and this = sample_wallet]
        eth_accounts_reads_cache
          [where e = sample_env and reply = Pending
             and s = "empty_world\<lparr>storage := (\<lambda>k. Some ''not an address'')\<rparr>"
             and args = "\<lparr> rpc_method = ''eth_accounts'', rpc_params = [] \<rparr>"
             and this = sample_wallet]
        eth_accounts_reads_cache
          [where e = sample_env and reply = Pending and s = empty_world
             and args = "\<lparr> rpc_method = ''eth_accounts'', rpc_params = [] \<rparr>"
             and this = sample_wallet]
  by (simp add: sample_defs)

subsection \<open>The signing methods\<close>

lemma getIdAddressOrConnect_cached:
  "getIdAddress e this s = Some a \<Longrightarrow>
   getIdAddressOrConnect e reply this s = (Fulfilled a, this, s)"
  by (simp add: getIdAddressOrConnect_def)

lemma getIdAddressOrConnect_fresh:
  "getIdAddress e this s = None \<Longrightarrow>
   getIdAddressOrConnect e reply this s =
     await (connect e reply this s)
       (\<lambda>result this1 s1. (Fulfilled (authorized result), this1, s1))"
  by (simp add: getIdAddressOrConnect_def)

lemma await_await:
  "await (await r k) k' = await r (\<lambda>v this s. await (k v this s) k')"
  by (cases r rule: prod_cases3; case_tac a) (simp_all add: await_def)

lemma await_Fulfilled: "await (Fulfilled v, this, s) k = k v this s"
  by (simp add: await_def)

text \<open>
  Claim C6. For \<open>personal_sign\<close>, \<open>eth_signTypedData_v4\<close> and \<open>eth_sendTransaction\<close> alike: with a
  cached address the action is delegated at once, and the \<open>expectAddress\<close> of the call is
  that address; no handshake request is sent. With none, \<open>connect\<close> runs first and the action
  is delegated only if it fulfils, and the \<open>expectAddress\<close> of the call is the address
  \<open>connect\<close> authorized; in particular, after a handshake that returns a valid address the
  trace is the handshake request, the two events of \<open>connect\<close> and then the delegated call
  whose \<open>expectAddress\<close> is the new address. The argument object of each call is written
  out field by field.
\<close>

theorem signing_methods_use_authorized_address:
  "(rpc_method args = ''personal_sign'' \<longrightarrow>
      (\<forall>a. getIdAddress e this s = Some a \<longrightarrow>
         request e reply args this s =
           (personalSign e
              \<lparr> act_params = rpc_params args, act_chainId = None,
                act_expectAddress = a, act_clientId = clientId this,
                act_idOrigin = idOrigin this \<rparr>,
            this,
            s\<lparr>trace := trace s @
              [PersonalSign
                 \<lparr> act_params = rpc_params args, act_chainId = None,
                act_expectAddress = a, act_clientId = clientId this,
                act_idOrigin = idOrigin this \<rparr>]\<rparr>)) \<and>
      (getIdAddress e this s = None \<longrightarrow>
         request e reply args this s =
           await (connect e reply this s)
             (\<lambda>r this1 s1.
                (personalSign e
                   \<lparr> act_params = rpc_params args, act_chainId = None,
                act_expectAddress = authorized r, act_clientId = clientId this1,
                act_idOrigin = idOrigin this1 \<rparr>,
                 this1,
                 s1\<lparr>trace := trace s1 @
                   [PersonalSign
                      \<lparr> act_params = rpc_params args, act_chainId = None,
                act_expectAddress = authorized r, act_clientId = clientId this1,
                act_idOrigin = idOrigin this1 \<rparr>]\<rparr>))) \<and>
      (\<forall>d b. getIdAddress e this s = None \<and> reply = Fulfilled (Some d) \<and>
             validateIdAddress e (resp_address d) = Some b \<longrightarrow>
         request e reply args this s =
           (personalSign e
              \<lparr> act_params = rpc_params args, act_chainId = None,
                act_expectAddress = b, act_clientId = clientId this,
                act_idOrigin = idOrigin this \<rparr>,
            this\<lparr>address := Some b\<rparr>,
            s\<lparr>storage := (storage s)(STORAGE_ADDRESS_KEY e \<mapsto> b),
              trace := trace s @
                [authorize_request e this, Emit (AccountsChanged [b]),
                 Emit (Connect (chainId this)),
                 PersonalSign
                   \<lparr> act_params = rpc_params args, act_chainId = None,
                act_expectAddress = b, act_clientId = clientId this,
                act_idOrigin = idOrigin this \<rparr>]\<rparr>))) \<and>
   (rpc_method args = ''eth_signTypedData_v4'' \<longrightarrow>
      (\<forall>a. getIdAddress e this s = Some a \<longrightarrow>
         request e reply args this s =
           (signTypedDataV4 e
              \<lparr> act_params = rpc_params args, act_chainId = Some (chainId this),
                act_expectAddress = a, act_clientId = clientId this,
                act_idOrigin = idOrigin this \<rparr>,
            this,
            s\<lparr>trace := trace s @
              [SignTypedDataV4
                 \<lparr> act_params = rpc_params args, act_chainId = Some (chainId this),
                act_expectAddress = a, act_clientId = clientId this,
                act_idOrigin = idOrigin this \<rparr>]\<rparr>)) \<and>
      (getIdAddress e this s = None \<longrightarrow>
         request e reply args this s =
           await (connect e reply this s)
             (\<lambda>r this1 s1.
                (signTypedDataV4 e
                   \<lparr> act_params = rpc_params args, act_chainId = Some (chainId this1),
                act_expectAddress = authorized r, act_clientId = clientId this1,
                act_idOrigin = idOrigin this1 \<rparr>,
                 this1,
                 s1\<lparr>trace := trace s1 @
                   [SignTypedDataV4
                      \<lparr> act_params = rpc_params args, act_chainId = Some (chainId this1),
                act_expectAddress = authorized r, act_clientId = clientId this1,
                act_idOrigin = idOrigin this1 \<rparr>]\<rparr>))) \<and>
      (\<forall>d b. getIdAddress e this s = None \<and> reply = Fulfilled (Some d) \<and>
             validateIdAddress e (resp_address d) = Some b \<longrightarrow>
         request e reply args this s =
           (signTypedDataV4 e
              \<lparr> act_params = rpc_params args, act_chainId = Some (chainId this),
                act_expectAddress = b, act_clientId = clientId this,
                act_idOrigin = idOrigin this \<rparr>,
            this\<lparr>address := Some b\<rparr>,
            s\<lparr>storage := (storage s)(STORAGE_ADDRESS_KEY e \<mapsto> b),
              trace := trace s @
                [authorize_request e this, Emit (AccountsChanged [b]),
                 Emit (Connect (chainId this)),
                 SignTypedDataV4
                   \<lparr> act_params = rpc_params args, act_chainId = Some (chainId this),
                act_expectAddress = b, act_clientId = clientId this,
                act_idOrigin = idOrigin this \<rparr>]\<rparr>))) \<and>
   (rpc_method args = ''eth_sendTransaction'' \<longrightarrow>
      (\<forall>a. getIdAddress e this s = Some a \<longrightarrow>
         request e reply args this s =
           (sendTransaction e
              \<lparr> act_params = rpc_params args, act_chainId = Some (chainId this),
                act_expectAddress = a, act_clientId = clientId this,
                act_idOrigin = idOrigin this \<rparr>,
            this,
            s\<lparr>trace := trace s @
              [SendTransaction
                 \<lparr> act_params = rpc_params args, act_chainId = Some (chainId this),
                act_expectAddress = a, act_clientId = clientId this,
                act_idOrigin = idOrigin this \<rparr>]\<rparr>)) \<and>
      (getIdAddress e this s = None \<longrightarrow>
         request e reply args this s =
           await (connect e reply this s)
             (\<lambda>r this1 s1.
                (sendTransaction e
                   \<lparr> act_params = rpc_params args, act_chainId = Some (chainId this1),
                act_expectAddress = authorized r, act_clientId = clientId this1,
                act_idOrigin = idOrigin this1 \<rparr>,
                 this1,
                 s1\<lparr>trace := trace s1 @
                   [SendTransaction
                      \<lparr> act_params = rpc_params args, act_chainId = Some (chainId this1),
                act_expectAddress = authorized r, act_clientId = clientId this1,
                act_idOrigin = idOrigin this1 \<rparr>]\<rparr>))) \<and>
      (\<forall>d b. getIdAddress e this s = None \<and> reply = Fulfilled (Some d) \<and>
             validateIdAddress e (resp_address d) = Some b \<longrightarrow>
         request e reply args this s =
           (sendTransaction e
              \<lparr> act_params = rpc_params args, act_chainId = Some (chainId this),
                act_expectAddress = b, act_clientId = clientId this,
                act_idOrigin = idOrigin this \<rparr>,
            this\<lparr>address := Some b\<rparr>,
            s\<lparr>storage := (storage s)(STORAGE_ADDRESS_KEY e \<mapsto> b),
              trace := trace s @
                [authorize_request e this, Emit (AccountsChanged [b]),
                 Emit (Connect (chainId this)),
                 SendTransaction
                   \<lparr> act_params = rpc_params args, act_chainId = Some (chainId this),
                act_expectAddress = b, act_clientId = clientId this,
                act_idOrigin = idOrigin this \<rparr>]\<rparr>)))"
  by (simp add: request_def getIdAddressOrConnect_cached getIdAddressOrConnect_fresh
        await_await await_Fulfilled connect_valid action_object_def Let_def)

theorem signing_methods_use_authorized_address_witness:
  "getIdAddress sample_env (sample_wallet\<lparr>address := Some old_address\<rparr>) empty_world =
     Some old_address \<and>
   request sample_env Pending \<lparr> rpc_method = ''personal_sign'', rpc_params = [''0x68656c6c6f''] \<rparr>
       (sample_wallet\<lparr>address := Some old_address\<rparr>) empty_world =
     (Fulfilled (Opaque (''signed by '' @ old_address)),
      sample_wallet\<lparr>address := Some old_address\<rparr>,
      empty_world\<lparr>trace :=
        [PersonalSign \<lparr> act_params = [''0x68656c6c6f''], act_chainId = None,
                        act_expectAddress = old_address, act_clientId = ''client'',
                        act_idOrigin = ''https://id.skymavis.com'' \<rparr>]\<rparr>) \<and>
   getIdAddress sample_env sample_wallet
       (empty_world\<lparr>storage := (\<lambda>k. if k = ''MAVIS.ID:ADDRESS'' then Some sample_address
                                         else None)\<rparr>) =
     Some sample_address \<and>
   request sample_env Pending \<lparr> rpc_method = ''eth_signTypedData_v4'', rpc_params = [''data''] \<rparr>
       sample_wallet
       (empty_world\<lparr>storage := (\<lambda>k. if k = ''MAVIS.ID:ADDRESS'' then Some sample_address
                                         else None)\<rparr>) =
     (Fulfilled (Opaque (''signed by '' @ sample_address)),
      sample_wallet,
      (empty_world\<lparr>storage := (\<lambda>k. if k = ''MAVIS.ID:ADDRESS'' then Some sample_address
                                         else None)\<rparr>)
        \<lparr>trace :=
          [SignTypedDataV4 \<lparr> act_params = [''data''], act_chainId = Some 2020,
                             act_expectAddress = sample_address, act_clientId = ''client'',
                             act_idOrigin = ''https://id.skymavis.com'' \<rparr>]\<rparr>) \<and>
   getIdAddress sample_env sample_wallet empty_world = None \<and>
   fst (request sample_env
          (Fulfilled (Some \<lparr> id_token = Some ''token'', resp_address = Some sample_address \<rparr>))
          \<lparr> rpc_method = ''eth_sendTransaction'', rpc_params = [''tx''] \<rparr>
          sample_wallet empty_world) =
     Fulfilled (Opaque (''sent by '' @ sample_address)) \<and>
   trace (snd (snd (request sample_env
          (Fulfilled (Some \<lparr> id_token = Some ''token'', resp_address = Some sample_address \<rparr>))
          \<lparr> rpc_method = ''eth_sendTransaction'', rpc_params = [''tx''] \<rparr>
          sample_wallet empty_world))) =
     [authorize_request sample_env sample_wallet, Emit (AccountsChanged [sample_address]),
      Emit (Connect 2020),
      SendTransaction \<lparr> act_params = [''tx''], act_chainId = Some 2020,
                         act_expectAddress = sample_address, act_clientId = ''client'',
                         act_idOrigin = ''https://id.skymavis.com'' \<rparr>] \<and>
   fst (request sample_env
          (Rejected (ExternalError ''popup closed''))
          \<lparr> rpc_method = ''eth_signTypedData_v4'', rpc_params = [''data''] \<rparr>
          sample_wallet empty_world) =
     Rejected (ExternalError ''popup closed'') \<and>
   trace (snd (snd (request sample_env
          (Rejected (ExternalError ''popup closed''))
          \<lparr> rpc_method = ''eth_signTypedData_v4'', rpc_params = [''data''] \<rparr>
          sample_wallet empty_world))) =
     [authorize_request sample_env sample_wallet]"
  using signing_methods_use_authorized_address
          [where e = sample_env and reply = Pending and s = empty_world
             and this = "sample_wallet\<lparr>address := Some old_address\<rparr>"
             and args = "\<lparr> rpc_method = ''personal_sign'', rpc_params = [''0x68656c6c6f''] \<rparr>"]
        signing_methods_use_authorized_address
          [where e = sample_env and reply = Pending and this = sample_wallet
             and s = "empty_world\<lparr>storage := (\<lambda>k. if k = ''MAVIS.ID:ADDRESS''
                                                     then Some sample_address else None)\<rparr>"
             and args = "\<lparr> rpc_method = ''eth_signTypedData_v4'', rpc_params = [''data''] \<rparr>"]
        signing_methods_use_authorized_address
          [where e = sample_env and s = empty_world and this = sample_wallet
             and reply = "Fulfilled (Some \<lparr> id_token = Some ''token'',
                                              resp_address = Some sample_address \<rparr>)"
             and args = "\<lparr> rpc_method = ''eth_sendTransaction'', rpc_params = [''tx''] \<rparr>"]
        signing_methods_use_authorized_address
          [where e = sample_env and s = empty_world and this = sample_wallet
             and reply = "Rejected (ExternalError ''popup closed'')"
             and args = "\<lparr> rpc_method = ''eth_signTypedData_v4'', rpc_params = [''data''] \<rparr>"]
  by (simp add: getIdAddress_def getStorage_def connect_def await_def
        connect_settled_def setStorage_def emit_def authorize_request_def sample_defs
        old_address_def)

subsection \<open>Unsupported chains\<close>

text \<open>
  Claim C7. For a chain id that \<open>VIEM_CHAIN_MAPPING\<close> does not map, \<open>create\<close> throws the
  chain-disconnected error made from "Chain <id> is not supported." and returns no
  instance; for a mapped chain id it returns an instance for that chain, with no address.
\<close>

theorem create_needs_known_chain:
  "(VIEM_CHAIN_MAPPING e (opt_chainId options) = None \<longrightarrow>
      create e options = Inl (ChainDisconnectedError (opt_chainId options))) \<and>
   (\<forall>chain. VIEM_CHAIN_MAPPING e (opt_chainId options) = Some chain \<longrightarrow>
      (\<exists>this. create e options = Inr this \<and> chainId this = opt_chainId options \<and>
              viemClient this = Client chain \<and> address this = None))"
  by (simp add: create_def createViemClient_def Let_def)

theorem create_needs_known_chain_witness:
  "VIEM_CHAIN_MAPPING sample_env 1 = None \<and>
   create sample_env \<lparr> opt_clientId = ''client'', opt_idOrigin = None, opt_scopes = None,
                        opt_redirectUrl = None, opt_chainId = 1 \<rparr> =
     Inl (ChainDisconnectedError 1) \<and>
   VIEM_CHAIN_MAPPING sample_env 2020 = Some (Chain 2020 ''Ronin'') \<and>
   create sample_env \<lparr> opt_clientId = ''client'', opt_idOrigin = None, opt_scopes = None,
                        opt_redirectUrl = None, opt_chainId = 2020 \<rparr> =
     Inr sample_wallet"
  using create_needs_known_chain
          [where e = sample_env
             and options = "\<lparr> opt_clientId = ''client'', opt_idOrigin = None, opt_scopes = None,
                               opt_redirectUrl = None, opt_chainId = 1 \<rparr>"]
        create_needs_known_chain
          [where e = sample_env
             and options = "\<lparr> opt_clientId = ''client'', opt_idOrigin = None, opt_scopes = None,
                               opt_redirectUrl = None, opt_chainId = 2020 \<rparr>"]
  by (simp add: sample_defs create_def createViemClient_def addDefaultScopes_def)

subsection \<open>Default scopes\<close>

lemma addDefaultScopes_eq:
  "addDefaultScopes xs =
     xs @ (if ''openid'' \<in> set xs then [] else [''openid''])
        @ (if ''wallet'' \<in> set xs then [] else [''wallet''])"
  by (simp add: addDefaultScopes_def Let_def)

lemma create_scopes:
  "create e options = Inr this \<Longrightarrow>
   scopes this = addDefaultScopes (case opt_scopes options of None \<Rightarrow> [] | Some xs \<Rightarrow> xs)"
  by (auto simp add: create_def Let_def split: sum.splits)

text \<open>
  Claim C9. \<open>addDefaultScopes\<close> keeps the caller's scopes, in order, as a prefix and appends
  "openid" and then "wallet", each exactly when the caller's list lacks it: both are in
  the result, and one that was missing occurs once. Every instance \<open>create\<close> returns has
  the scopes so computed from the caller's list (the empty list when none is given).
\<close>

theorem default_scopes_appended_once:
  "addDefaultScopes xs =
     xs @ (if ''openid'' \<in> set xs then [] else [''openid''])
        @ (if ''wallet'' \<in> set xs then [] else [''wallet'']) \<and>
   take (length xs) (addDefaultScopes xs) = xs \<and>
   ''openid'' \<in> set (addDefaultScopes xs) \<and>
   ''wallet'' \<in> set (addDefaultScopes xs) \<and>
   count_list (addDefaultScopes xs) ''openid'' =
     (if ''openid'' \<in> set xs then count_list xs ''openid'' else 1) \<and>
   count_list (addDefaultScopes xs) ''wallet'' =
     (if ''wallet'' \<in> set xs then count_list xs ''wallet'' else 1) \<and>
   (\<forall>this. create e options = Inr this \<longrightarrow>
      scopes this = addDefaultScopes (case opt_scopes options of None \<Rightarrow> [] | Some ys \<Rightarrow> ys))"
  by (simp add: addDefaultScopes_eq create_scopes)

theorem default_scopes_appended_once_witness:
  "addDefaultScopes [''profile'', ''wallet''] = [''profile'', ''wallet'', ''openid''] \<and>
   create sample_env \<lparr> opt_clientId = ''client'', opt_idOrigin = None,
                        opt_scopes = Some [''profile'', ''wallet''],
                        opt_redirectUrl = None, opt_chainId = 2020 \<rparr> =
     Inr (sample_wallet\<lparr>scopes := [''profile'', ''wallet'', ''openid'']\<rparr>) \<and>
   scopes (sample_wallet\<lparr>scopes := [''profile'', ''wallet'', ''openid'']\<rparr>) =
     addDefaultScopes [''profile'', ''wallet'']"
  using default_scopes_appended_once
          [where xs = "[''profile'', ''wallet'']" and e = sample_env
             and options = "\<lparr> opt_clientId = ''client'', opt_idOrigin = None,
                               opt_scopes = Some [''profile'', ''wallet''],
                               opt_redirectUrl = None, opt_chainId = 2020 \<rparr>"]
  by (simp add: sample_defs create_def createViemClient_def addDefaultScopes_def)

subsection \<open>parseRedirectUrl\<close>

text \<open>
  Claim C8. \<open>parseRedirectUrl\<close> throws "parseRedirectUrl: invalid method" when the \<open>method\<close>
  parameter is not "auth", and "parseRedirectUrl: authorization failed" when it is but the
  \<open>type\<close> parameter is not "success"; when both checks pass it returns the \<open>state\<close>
  parameter, the \<open>data\<close> parameter as the access token, and the validated \<open>address\<close>
  parameter.
\<close>

theorem parseRedirectUrl_checks_method_and_type:
  "(searchParams_get query ''method'' \<noteq> Some ''auth'' \<longrightarrow>
      parseRedirectUrl e query = Inl ''parseRedirectUrl: invalid method'') \<and>
   (searchParams_get query ''method'' = Some ''auth'' \<and>
    searchParams_get query ''type'' \<noteq> Some ''success'' \<longrightarrow>
      parseRedirectUrl e query = Inl ''parseRedirectUrl: authorization failed'') \<and>
   (searchParams_get query ''method'' = Some ''auth'' \<and>
    searchParams_get query ''type'' = Some ''success'' \<longrightarrow>
      parseRedirectUrl e query =
        Inr \<lparr> rr_state = searchParams_get query ''state'',
              rr_accessToken = searchParams_get query ''data'',
              rr_address = validateIdAddress e (searchParams_get query ''address'') \<rparr>)"
  by (simp add: parseRedirectUrl_def Let_def)

theorem parseRedirectUrl_checks_method_and_type_witness:
  "parseRedirectUrl sample_env [(''method'', ''sign''), (''type'', ''success'')] =
     Inl ''parseRedirectUrl: invalid method'' \<and>
   parseRedirectUrl sample_env [(''method'', ''auth''), (''type'', ''failure'')] =
     Inl ''parseRedirectUrl: authorization failed'' \<and>
   parseRedirectUrl sample_env
       [(''method'', ''auth''), (''type'', ''success''), (''state'', ''s1''), (''data'', ''tok''),
        (''address'', sample_address)] =
     Inr \<lparr> rr_state = Some ''s1'', rr_accessToken = Some ''tok'',
           rr_address = Some sample_address \<rparr>"
  using parseRedirectUrl_checks_method_and_type
          [where e = sample_env and query = "[(''method'', ''sign''), (''type'', ''success'')]"]
        parseRedirectUrl_checks_method_and_type
          [where e = sample_env and query = "[(''method'', ''auth''), (''type'', ''failure'')]"]
        parseRedirectUrl_checks_method_and_type
          [where e = sample_env
             and query = "[(''method'', ''auth''), (''type'', ''success''), (''state'', ''s1''),
                           (''data'', ''tok''), (''address'', sample_address)]"]
  by (simp add: searchParams_get_def sample_env_def)

subsection \<open>authorize and connect on an invalid address\<close>

text \<open>
  Claim C10. On a handshake fulfilled with a payload whose address \<open>validateIdAddress\<close> does
  not accept, \<open>authorize\<close> (called in a window, or with a redirect URL) resolves, with its
  \<open>address\<close> undefined, while \<open>connect\<close> rejects with the unauthorized-provider error.
\<close>

theorem authorize_resolves_where_connect_rejects:
  "validateIdAddress e (resp_address d) = None \<and>
   (ao_redirectUrl opts \<noteq> None \<or> window_origin e \<noteq> None) \<Longrightarrow>
   fst (authorize e (Fulfilled (Some d)) opts tr) =
     Fulfilled \<lparr> au_accessToken = id_token d, au_address = None \<rparr> \<and>
   fst (connect e (Fulfilled (Some d)) this s) =
     Rejected (UnauthorizedProviderError ''ID do NOT return valid address'')"
  by (auto simp add: authorize_def connect_invalid Let_def split: option.splits)

theorem authorize_resolves_where_connect_rejects_witness:
  "validateIdAddress sample_env
       (resp_address \<lparr> id_token = Some ''token'', resp_address = Some ''0x123'' \<rparr>) = None \<and>
   window_origin sample_env = Some ''https://app.example'' \<and>
   fst (authorize sample_env
          (Fulfilled (Some \<lparr> id_token = Some ''token'', resp_address = Some ''0x123'' \<rparr>))
          \<lparr> ao_clientId = ''client'', ao_idOrigin = None, ao_scopes = None,
            ao_redirectUrl = None \<rparr> []) =
     Fulfilled \<lparr> au_accessToken = Some ''token'', au_address = None \<rparr> \<and>
   fst (connect sample_env
          (Fulfilled (Some \<lparr> id_token = Some ''token'', resp_address = Some ''0x123'' \<rparr>))
          sample_wallet empty_world) =
     Rejected (UnauthorizedProviderError ''ID do NOT return valid address'')"
  using authorize_resolves_where_connect_rejects
          [where e = sample_env and this = sample_wallet and s = empty_world and tr = "[]"
             and d = "\<lparr> id_token = Some ''token'', resp_address = Some ''0x123'' \<rparr>"
             and opts = "\<lparr> ao_clientId = ''client'', ao_idOrigin = None, ao_scopes = None,
                            ao_redirectUrl = None \<rparr>"]
  by (simp add: sample_env_def sample_address_def)

end
